theory Spec2Isabelle
  imports Complex_Main
begin

section \<open>The multi-axis view box of PyDM: data model\<close>

text \<open>
  The source is the single class \<open>MultiAxisViewBox\<close> of
  \<^verbatim>\<open>pydm/widgets/multi_axis_viewbox.py\<close>, a subclass of pyqtgraph's \<open>ViewBox\<close>.
  The model is of one widget instance.

  \<^item> What the code takes from Python and from the host framework is a parameter of the
    model, the record \<open>host\<close>: the float type \<open>'f\<close> with the operations the code
    applies to it, the comparison \<open>==\<close> of two \<open>Point\<close>s (type \<open>'p\<close>), and the map from
    the position an event reports (type \<open>'q\<close>) through the inverted transform of the
    child group (type \<open>'t\<close>) to a point. Nothing is assumed of them: a float
    operation may round, overflow or underflow, and \<open>==\<close> need not be transitive.
    The two exceptions that Python raises in the float expressions of the source are
    branches of the model: \<open>1.02 ** x\<close> raises \<open>OverflowError\<close> when it has no
    result, and \<open>1 / x\<close> raises \<open>ZeroDivisionError\<close> when \<open>x == 0\<close>.
  \<^item> \<open>'r\<close> is a stored view rectangle.
  \<^item> An axis argument is \<open>None\<close> or an integer: \<^typ>\<open>int option\<close>.
  \<^item> Every signal emitted and every call into the base class is appended to a trace,
    oldest first. Each signal of the source carries the emitting widget as its first
    payload; with one widget modelled that payload is left implicit. What the base
    class does in such a call is outside the source and is not modelled: the fields
    the base class owns keep their values during a call of this class.
\<close>

datatype py_error = ZeroDivisionError | OverflowError | IndexError

record ('f, 'p, 'q, 't) host =
  f_mul_int :: "int \<Rightarrow> 'f \<Rightarrow> 'f"
  f_pow_102 :: "'f \<Rightarrow> 'f option"
  f_is_zero :: "'f \<Rightarrow> bool"
  f_recip :: "'f \<Rightarrow> 'f"
  f_mul :: "'f \<Rightarrow> 'f \<Rightarrow> 'f"
  point_eq :: "'p \<Rightarrow> 'p \<Rightarrow> bool"
  map_inverted :: "'t \<Rightarrow> 'q \<Rightarrow> 'p"

text \<open>
  The fields of \<open>host\<close>: \<open>f_mul_int i x\<close> is \<open>i * x\<close> for an integer and a float;
  \<open>f_pow_102 x\<close> is \<open>1.02 ** x\<close>, \<open>None\<close> when Python raises \<open>OverflowError\<close>;
  \<open>f_is_zero x\<close> is \<open>x == 0\<close>; \<open>f_recip x\<close> is \<open>1 / x\<close> for an \<open>x\<close> that is not zero;
  \<open>f_mul x y\<close> is \<open>x * y\<close>; \<open>point_eq a b\<close> is \<open>a == b\<close> of two points;
  \<open>map_inverted tr p\<close> is \<open>Point(invertQTransform(tr).map(p))\<close>.
\<close>

record 'q wheel_event =
  pos :: 'q
  delta :: int

record drag_event =
  isFinish :: bool

record key_event =
  key_text :: string
  key :: int
  accepted :: bool

type_synonym ('f, 'p) zoom = "'f \<times> 'p \<times> int option"

datatype ('f, 'p, 'q, 'r) effect =
    SigMouseDragged drag_event "int option"
  | SigMouseDraggedDone
  | SigMouseWheelZoomed "'q wheel_event" "int option"
  | SigHistoryChanged int
  | ZoomSignal 'f 'p "int option"
  | SigRangeChangedManually "bool list"
  | Super_wheelEvent "'q wheel_event" "int option"
  | Super_mouseDragEvent drag_event "int option"
  | ResetTarget
  | Print_mask "bool list"
  | Print_s "'f option list"
  | ScaleBy "'f option list" 'p
  | EnableAutoRange
  | ShowAxRect 'r

record ('f, 'p, 'q, 'r, 't) viewbox =
  undoStack :: "('f, 'p) zoom list"
  redoStack :: "('f, 'p) zoom list"
  axHistory :: "'r list"
  axHistoryPointer :: int
  wheelScaleFactor :: 'f
  mouseMode :: int
  childGroup_transform :: 't
  trace :: "('f, 'p, 'q, 'r) effect list"

text \<open>Constants of the host framework that the source names.\<close>

definition XAxis :: int where
  "XAxis = 0"

definition YAxis :: int where
  "YAxis = 1"

definition RectMode :: int where
  "RectMode = 1"

definition Key_Backspace :: int where
  "Key_Backspace = 16777219"

section \<open>Operations\<close>

text \<open>Appending to the trace: a signal's \<open>emit\<close>, a call of a base-class method, a \<open>print\<close>.\<close>

definition perform ::
  "('f, 'p, 'q, 'r) effect list \<Rightarrow> ('f, 'p, 'q, 'r, 't) viewbox \<Rightarrow> ('f, 'p, 'q, 'r, 't) viewbox" where
  "perform es s = s\<lparr>trace := trace s @ es\<rparr>"

text \<open>
  \<open>xs[i]\<close> of Python for a list and an integer: a negative index counts from the end,
  and an index outside the list raises \<open>IndexError\<close>.
\<close>

definition py_index :: "'a list \<Rightarrow> int \<Rightarrow> py_error + 'a" where
  "py_index xs i =
     (if 0 \<le> i \<and> i < int (length xs) then Inr (xs ! nat i)
      else if i < 0 \<and> - int (length xs) \<le> i then Inr (xs ! nat (int (length xs) + i))
      else Inl IndexError)"


text \<open>
  \<open>wheelEvent(ev, axis, fromSignal)\<close>. The assignment of \<open>factor\<close> raises when the
  power overflows and when the power is zero; it comes before the redo stack is
  cleared, so a call that raises has emitted its signal and changed nothing else.
\<close>

definition wheelEvent ::
  "('f, 'p, 'q, 't) host \<Rightarrow> ('f, 'p, 'q, 'r, 't) viewbox \<Rightarrow> 'q wheel_event \<Rightarrow> int option \<Rightarrow> bool
    \<Rightarrow> py_error option \<times> ('f, 'p, 'q, 'r, 't) viewbox" where
  "wheelEvent H s ev axis fromSignal =
     (let s1 = (if axis \<noteq> Some YAxis \<and> \<not> fromSignal
                then perform [SigMouseWheelZoomed ev axis] s else s);
          center = map_inverted H (childGroup_transform s1) (pos ev)
      in case f_pow_102 H (f_mul_int H (delta ev) (wheelScaleFactor s1)) of
           None \<Rightarrow> (Some OverflowError, s1)
         | Some p \<Rightarrow>
             if f_is_zero H p then (Some ZeroDivisionError, s1)
             else
               let factor = f_recip H p;
                   s2 = s1\<lparr>redoStack := []\<rparr>;
                   s3 =
                     (if undoStack s2 \<noteq> [] then
                        let prev = last (undoStack s2);
                            s2' = s2\<lparr>undoStack := butlast (undoStack s2)\<rparr>
                        in if point_eq H (fst (snd prev)) center \<and> snd (snd prev) = axis
                           then s2'\<lparr>undoStack :=
                                  undoStack s2' @ [(f_mul H factor (fst prev), center, axis)]\<rparr>
                           else s2'\<lparr>undoStack :=
                                  (undoStack s2' @ [prev]) @ [(factor, center, axis)]\<rparr>
                      else s2\<lparr>undoStack := undoStack s2 @ [(factor, center, axis)]\<rparr>)
               in (None, perform [Super_wheelEvent ev axis] s3))"

text \<open>\<open>mouseDragEvent(ev, axis, fromSignal)\<close>.\<close>

definition mouseDragEvent ::
  "('f, 'p, 'q, 'r, 't) viewbox \<Rightarrow> drag_event \<Rightarrow> int option \<Rightarrow> bool
    \<Rightarrow> ('f, 'p, 'q, 'r, 't) viewbox" where
  "mouseDragEvent s ev axis fromSignal =
     (let s1 =
            (if axis \<noteq> Some YAxis \<and> \<not> fromSignal then
               let s' = perform [SigMouseDragged ev axis] s
               in if isFinish ev \<and> mouseMode s' = RectMode \<and> axis = None
                  then perform [SigMouseDraggedDone] s' else s'
             else s)
      in perform [Super_mouseDragEvent ev axis] s1)"

text \<open>
  \<open>undo()\<close>. The division \<open>1 / scale\<close> is the last but one statement: when it raises,
  the entry is popped, the signals are emitted and the view is scaled, and the redo
  stack is as it was.
\<close>

definition undo ::
  "('f, 'p, 'q, 't) host \<Rightarrow> ('f, 'p, 'q, 'r, 't) viewbox
    \<Rightarrow> py_error option \<times> ('f, 'p, 'q, 'r, 't) viewbox" where
  "undo H s =
     (if undoStack s \<noteq> [] then
        (case last (undoStack s) of (scale, center, axis) \<Rightarrow>
           let s1 = s\<lparr>undoStack := butlast (undoStack s)\<rparr>;
               mask = [True, True];
               sc = map (\<lambda>m. if m = False then None else Some scale) mask;
               s2 = perform [ResetTarget, Print_mask mask, Print_s sc,
                             ZoomSignal scale center axis, ScaleBy sc center,
                             SigRangeChangedManually mask] s1
           in if f_is_zero H scale then (Some ZeroDivisionError, s2)
              else
                let redoScale = f_recip H scale
                in (None, s2\<lparr>redoStack := redoStack s2 @ [(redoScale, center, axis)]\<rparr>))
      else (None, s))"

text \<open>\<open>scaleHistory(d)\<close>.\<close>

definition scaleHistory ::
  "('f, 'p, 'q, 'r, 't) viewbox \<Rightarrow> int \<Rightarrow> py_error option \<times> ('f, 'p, 'q, 'r, 't) viewbox" where
  "scaleHistory s d =
     (let s1 = perform [SigHistoryChanged d] s
      in if length (axHistory s1) \<noteq> 0 then
           let s2 =
                 (if d = - 1 \<and> axHistoryPointer s1 \<noteq> - 1
                  then s1\<lparr>axHistoryPointer := axHistoryPointer s1 - 1\<rparr>
                  else if d = 1 \<and> axHistoryPointer s1 \<noteq> int (length (axHistory s1)) - 1
                  then s1\<lparr>axHistoryPointer := axHistoryPointer s1 + 1\<rparr>
                  else if d = 0
                  then s1\<lparr>axHistoryPointer := - 1\<rparr>
                  else s1)
           in if axHistoryPointer s2 = - 1 then (None, perform [EnableAutoRange] s2)
              else
                (case py_index (axHistory s2) (axHistoryPointer s2) of
                   Inl e \<Rightarrow> (Some e, s2)
                 | Inr r \<Rightarrow> (None, perform [ShowAxRect r] s2))
         else (None, s1))"

text \<open>
  \<open>keyPressEvent(ev)\<close>. The event is changed by \<open>accept()\<close> and \<open>ignore()\<close>, so it is
  returned with the widget.
\<close>

definition keyPressEvent ::
  "('f, 'p, 'q, 't) host \<Rightarrow> ('f, 'p, 'q, 'r, 't) viewbox \<Rightarrow> key_event
    \<Rightarrow> py_error option \<times> ('f, 'p, 'q, 'r, 't) viewbox \<times> key_event" where
  "keyPressEvent H s ev =
     (let ev1 = ev\<lparr>accepted := True\<rparr>
      in if key_text ev1 = ''-'' then
           (case undo H s of (e, s') \<Rightarrow> (e, s', ev1))
         else if key_text ev1 \<in> set [''+'', ''=''] then
           (case scaleHistory s 1 of (e, s') \<Rightarrow> (e, s', ev1))
         else if key ev1 = Key_Backspace then
           (case scaleHistory s 0 of (e, s') \<Rightarrow> (e, s', ev1))
         else (None, s, ev1\<lparr>accepted := False\<rparr>))"

section \<open>Quantities and observations used in the statements\<close>

text \<open>
  The center and the factor that \<open>wheelEvent\<close> computes from the event (the two
  assignments before the redo stack is cleared; the second one may raise), and the
  test it applies to the top of the undo stack.
\<close>

definition wheel_center ::
  "('f, 'p, 'q, 't) host \<Rightarrow> ('f, 'p, 'q, 'r, 't) viewbox \<Rightarrow> 'q wheel_event \<Rightarrow> 'p" where
  "wheel_center H s ev = map_inverted H (childGroup_transform s) (pos ev)"

definition wheel_factor ::
  "('f, 'p, 'q, 't) host \<Rightarrow> ('f, 'p, 'q, 'r, 't) viewbox \<Rightarrow> 'q wheel_event \<Rightarrow> py_error + 'f" where
  "wheel_factor H s ev =
     (case f_pow_102 H (f_mul_int H (delta ev) (wheelScaleFactor s)) of
        None \<Rightarrow> Inl OverflowError
      | Some p \<Rightarrow> if f_is_zero H p then Inl ZeroDivisionError else Inr (f_recip H p))"

definition same_place ::
  "('p \<Rightarrow> 'p \<Rightarrow> bool) \<Rightarrow> ('f, 'p) zoom \<Rightarrow> 'p \<Rightarrow> int option \<Rightarrow> bool" where
  "same_place peq e center axis = (peq (fst (snd e)) center \<and> snd (snd e) = axis)"


text \<open>The payloads of the emissions of one signal in a trace, oldest first.\<close>

fun history_signals :: "('f, 'p, 'q, 'r) effect list \<Rightarrow> int list" where
  "history_signals [] = []"
| "history_signals (SigHistoryChanged d # es) = d # history_signals es"
| "history_signals (e # es) = history_signals es"

fun wheel_signals :: "('f, 'p, 'q, 'r) effect list \<Rightarrow> ('q wheel_event \<times> int option) list" where
  "wheel_signals [] = []"
| "wheel_signals (SigMouseWheelZoomed ev axis # es) = (ev, axis) # wheel_signals es"
| "wheel_signals (e # es) = wheel_signals es"

fun drag_signals :: "('f, 'p, 'q, 'r) effect list \<Rightarrow> (drag_event \<times> int option) list" where
  "drag_signals [] = []"
| "drag_signals (SigMouseDragged ev axis # es) = (ev, axis) # drag_signals es"
| "drag_signals (e # es) = drag_signals es"




subsection \<open>Concrete hosts and widgets\<close>

text \<open>
  The exact host: floats are real numbers with exact arithmetic, so the power is never
  zero and never overflows; points and positions are pairs of integers compared by
  equality; the transform is a translation.
\<close>

definition exact_host :: "(real, int \<times> int, int \<times> int, int \<times> int) host" where
  "exact_host =
     \<lparr>f_mul_int = (\<lambda>i x. real_of_int i * x), f_pow_102 = (\<lambda>x. Some (1.02 powr x)),
      f_is_zero = (\<lambda>x. x = 0), f_recip = (\<lambda>x. 1 / x), f_mul = (\<lambda>x y. x * y),
      point_eq = (\<lambda>a b. a = b),
      map_inverted = (\<lambda>t q. (fst q - fst t, snd q - snd t))\<rparr>"

text \<open>
  The exact host but for the power, which raises when \<open>1.02 ** x\<close> is above the
  largest double (about \<open>1.8e308\<close>), as it is from \<open>x = 35843\<close> on.
\<close>

definition overflow_host :: "(real, int \<times> int, int \<times> int, int \<times> int) host" where
  "overflow_host =
     exact_host\<lparr>f_pow_102 := (\<lambda>x. if 35843 \<le> x then None else Some (1.02 powr x))\<rparr>"

text \<open>
  A host whose points are pairs of reals, compared with a tolerance of \<open>1e-12\<close> on
  each coordinate, the way Qt compares two \<open>QPointF\<close>. The comparison is not
  transitive.
\<close>

definition fuzzy_host :: "(real, real \<times> real, real \<times> real, real \<times> real) host" where
  "fuzzy_host =
     \<lparr>f_mul_int = (\<lambda>i x. real_of_int i * x), f_pow_102 = (\<lambda>x. Some (1.02 powr x)),
      f_is_zero = (\<lambda>x. x = 0), f_recip = (\<lambda>x. 1 / x), f_mul = (\<lambda>x y. x * y),
      point_eq = (\<lambda>a b. \<bar>fst a - fst b\<bar> \<le> 1 / 10 ^ 12 \<and> \<bar>snd a - snd b\<bar> \<le> 1 / 10 ^ 12),
      map_inverted = (\<lambda>t q. (fst q - fst t, snd q - snd t))\<rparr>"

text \<open>
  Stored rectangles are numbers. The wheel event has the delta \<open>-8\<close>; with the scale
  factor \<open>-1/8\<close> its zoom factor is \<open>1 / 1.02 = 50 / 51\<close>, and its center is \<open>(3, 4)\<close>.
\<close>

definition ex_box :: "(real, int \<times> int, int \<times> int, nat, int \<times> int) viewbox" where
  "ex_box =
     \<lparr>undoStack = [], redoStack = [], axHistory = [10, 20, 30], axHistoryPointer = 1,
      wheelScaleFactor = - 1 / 8, mouseMode = RectMode, childGroup_transform = (1, 2),
      trace = []\<rparr>"

definition ex_wheel :: "(int \<times> int) wheel_event" where
  "ex_wheel = \<lparr>pos = (4, 6), delta = - 8\<rparr>"

definition ex_zoomed :: "(real, int \<times> int, int \<times> int, nat, int \<times> int) viewbox" where
  "ex_zoomed = ex_box\<lparr>undoStack := [(2, (3, 4), None)], redoStack := [(1 / 2, (0, 0), None)]\<rparr>"

definition ex_key :: "string \<Rightarrow> int \<Rightarrow> key_event" where
  "ex_key t k = \<lparr>key_text = t, key = k, accepted = False\<rparr>"


text \<open>
  A widget on the host with the tolerant comparison, and the new widget after four
  wheel events with no axis whose centers are \<open>1\<close>, \<open>1 + 1.5e-12\<close>, \<open>1 + 0.8e-12\<close>
  and \<open>1\<close> on the x coordinate.
\<close>

definition fuzzy_box :: "(real, real \<times> real, real \<times> real, nat, real \<times> real) viewbox" where
  "fuzzy_box =
     \<lparr>undoStack = [], redoStack = [], axHistory = [], axHistoryPointer = - 1,
      wheelScaleFactor = - 1 / 8, mouseMode = RectMode, childGroup_transform = (0, 0),
      trace = []\<rparr>"

definition fuzzy_wheel :: "real \<Rightarrow> (real \<times> real) wheel_event" where
  "fuzzy_wheel x = \<lparr>pos = (x, 0), delta = - 8\<rparr>"


section \<open>Each operation as one update of the state\<close>

lemma wheelEvent_raises:
  "wheel_factor H s ev = Inl e \<Longrightarrow>
   wheelEvent H s ev axis fs =
     (Some e,
      s\<lparr>trace := trace s @
           (if axis \<noteq> Some YAxis \<and> \<not> fs then [SigMouseWheelZoomed ev axis] else [])\<rparr>)"
  by (auto simp add: wheelEvent_def wheel_factor_def perform_def Let_def
      split: option.splits if_splits)

lemma wheelEvent_returns:
  "wheel_factor H s ev = Inr f \<Longrightarrow>
   wheelEvent H s ev axis fs =
     (None,
      s\<lparr>undoStack :=
           (if undoStack s \<noteq> [] \<and>
               same_place (point_eq H) (last (undoStack s)) (wheel_center H s ev) axis
            then butlast (undoStack s) @
                 [(f_mul H f (fst (last (undoStack s))), wheel_center H s ev, axis)]
            else undoStack s @ [(f, wheel_center H s ev, axis)]),
         redoStack := [],
         trace := trace s @
           (if axis \<noteq> Some YAxis \<and> \<not> fs then [SigMouseWheelZoomed ev axis] else [])
           @ [Super_wheelEvent ev axis]\<rparr>)"
  by (auto simp add: wheelEvent_def wheel_factor_def wheel_center_def same_place_def
      perform_def Let_def split: option.splits if_splits)

lemma wheelEvent_returns_iff:
  "fst (wheelEvent H s ev axis fs) = None \<longleftrightarrow> (\<exists>f. wheel_factor H s ev = Inr f)"
proof (cases "wheel_factor H s ev")
  case (Inl e)
  then show ?thesis by (simp add: wheelEvent_raises)
next
  case (Inr f)
  then show ?thesis by (simp add: wheelEvent_returns)
qed

lemma undo_eq:
  "undoStack s = st @ [(scale, center, axis)] \<Longrightarrow>
   undo H s =
     (if f_is_zero H scale then Some ZeroDivisionError else None,
      s\<lparr>undoStack := st,
        redoStack :=
          (if f_is_zero H scale then redoStack s
           else redoStack s @ [(f_recip H scale, center, axis)]),
        trace := trace s @ [ResetTarget, Print_mask [True, True], Print_s [Some scale, Some scale],
                   ZoomSignal scale center axis, ScaleBy [Some scale, Some scale] center,
                   SigRangeChangedManually [True, True]]\<rparr>)"
  by (simp add: undo_def perform_def Let_def)




lemma keyPressEvent_eq:
  "keyPressEvent H s ev =
     (if key_text ev = ''-'' then (fst (undo H s), snd (undo H s), ev\<lparr>accepted := True\<rparr>)
      else if key_text ev = ''+'' \<or> key_text ev = ''='' then
        (fst (scaleHistory s 1), snd (scaleHistory s 1), ev\<lparr>accepted := True\<rparr>)
      else if key ev = Key_Backspace then
        (fst (scaleHistory s 0), snd (scaleHistory s 0), ev\<lparr>accepted := True\<rparr>)
      else (None, s, ev\<lparr>accepted := False\<rparr>))"
  by (simp add: keyPressEvent_def Let_def split: prod.splits)




lemma history_signals_append: "history_signals (xs @ ys) = history_signals xs @ history_signals ys"
  by (induction xs rule: history_signals.induct) simp_all

lemma wheel_signals_append: "wheel_signals (xs @ ys) = wheel_signals xs @ wheel_signals ys"
  by (induction xs rule: wheel_signals.induct) simp_all

lemma drag_signals_append: "drag_signals (xs @ ys) = drag_signals xs @ drag_signals ys"
  by (induction xs rule: drag_signals.induct) simp_all

lemma scaleHistory_trace:
  "\<exists>post. trace (snd (scaleHistory s d)) = trace s @ SigHistoryChanged d # post \<and>
          history_signals post = []"
  by (auto simp add: scaleHistory_def perform_def Let_def split: sum.splits)

lemma mouseDragEvent_eq:
  "mouseDragEvent s ev axis fs =
     s\<lparr>trace := trace s
          @ (if axis \<noteq> Some YAxis \<and> \<not> fs then [SigMouseDragged ev axis] else [])
          @ (if axis = None \<and> \<not> fs \<and> isFinish ev \<and> mouseMode s = RectMode
             then [SigMouseDraggedDone] else [])
          @ [Super_mouseDragEvent ev axis]\<rparr>"
  by (simp add: mouseDragEvent_def perform_def Let_def)

lemma wheelEvent_wheel_signals:
  "wheel_signals (trace (snd (wheelEvent H s ev axis fs))) =
     wheel_signals (trace s) @ (if \<not> fs \<and> axis \<noteq> Some YAxis then [(ev, axis)] else [])"
proof (cases "wheel_factor H s ev")
  case (Inl e)
  then show ?thesis by (simp add: wheelEvent_raises wheel_signals_append)
next
  case (Inr f)
  then show ?thesis by (simp add: wheelEvent_returns wheel_signals_append)
qed






section \<open>The claims\<close>

text \<open>
  C1, as the code has it. Every call of \<open>wheelEvent\<close> that returns, for any axis and
  any \<open>fromSignal\<close>, has computed a factor. If the undo stack is not empty and its top
  entry has a center that compares \<open>==\<close> with the center the event computes, and the
  axis of the event, the top entry is replaced by the entry with the new factor
  multiplied by the old one (and the center of the event), and the length of the stack
  is unchanged; otherwise the entry (factor, center, axis) is pushed and the stack is
  one longer.
\<close>

theorem wheelEvent_coalesces_or_pushes:
  assumes "fst (wheelEvent H s ev axis fromSignal) = None"
  shows "\<exists>f. wheel_factor H s ev = Inr f \<and>
     undoStack (snd (wheelEvent H s ev axis fromSignal)) =
       (if undoStack s \<noteq> [] \<and>
           point_eq H (fst (snd (last (undoStack s)))) (wheel_center H s ev) \<and>
           snd (snd (last (undoStack s))) = axis
        then butlast (undoStack s) @
             [(f_mul H f (fst (last (undoStack s))), wheel_center H s ev, axis)]
        else undoStack s @ [(f, wheel_center H s ev, axis)]) \<and>
     length (undoStack (snd (wheelEvent H s ev axis fromSignal))) =
       (if undoStack s \<noteq> [] \<and>
           point_eq H (fst (snd (last (undoStack s)))) (wheel_center H s ev) \<and>
           snd (snd (last (undoStack s))) = axis
        then length (undoStack s) else length (undoStack s) + 1)"
proof -
  from assms obtain f where f: "wheel_factor H s ev = Inr f"
    by (auto simp add: wheelEvent_returns_iff)
  then show ?thesis
    by (simp add: wheelEvent_returns [OF f] same_place_def)
qed

text \<open>
  On the exact host the event with no axis is merged into the entry \<open>(2, (3, 4), None)\<close>
  and the same event on the x axis is pushed. With the tolerant comparison an event
  whose center is \<open>5e-13\<close> off the center of the top entry is merged.
\<close>

theorem wheelEvent_coalesces_or_pushes_witness:
  "fst (wheelEvent exact_host ex_zoomed ex_wheel None False) = None \<and>
   undoStack (snd (wheelEvent exact_host ex_zoomed ex_wheel None False)) =
     [(100 / 51, (3, 4), None)] \<and>
   fst (wheelEvent exact_host ex_zoomed ex_wheel (Some 0) True) = None \<and>
   undoStack (snd (wheelEvent exact_host ex_zoomed ex_wheel (Some 0) True)) =
     [(2, (3, 4), None), (50 / 51, (3, 4), Some 0)] \<and>
   fst (wheelEvent fuzzy_host (fuzzy_box\<lparr>undoStack := [(2, (1, 0), None)]\<rparr>)
          (fuzzy_wheel (1 + 5 / 10 ^ 13)) None False) = None \<and>
   undoStack (snd (wheelEvent fuzzy_host (fuzzy_box\<lparr>undoStack := [(2, (1, 0), None)]\<rparr>)
                     (fuzzy_wheel (1 + 5 / 10 ^ 13)) None False)) =
     [(100 / 51, (1 + 5 / 10 ^ 13, 0), None)]"
proof -
  have r1: "fst (wheelEvent exact_host ex_zoomed ex_wheel None False) = None"
    and r2: "fst (wheelEvent exact_host ex_zoomed ex_wheel (Some 0) True) = None"
    by (simp_all add: wheelEvent_def perform_def Let_def exact_host_def ex_zoomed_def
        ex_box_def ex_wheel_def)
  have r3: "fst (wheelEvent fuzzy_host (fuzzy_box\<lparr>undoStack := [(2, (1, 0), None)]\<rparr>)
          (fuzzy_wheel (1 + 5 / 10 ^ 13)) None False) = None"
    by (simp add: wheelEvent_def perform_def Let_def fuzzy_host_def fuzzy_box_def
        fuzzy_wheel_def)
  from wheelEvent_coalesces_or_pushes [OF r1] wheelEvent_coalesces_or_pushes [OF r2] r1 r2
  have "undoStack (snd (wheelEvent exact_host ex_zoomed ex_wheel None False)) =
       [(100 / 51, (3, 4), None)] \<and>
     undoStack (snd (wheelEvent exact_host ex_zoomed ex_wheel (Some 0) True)) =
       [(2, (3, 4), None), (50 / 51, (3, 4), Some 0)]"
    by (auto simp add: wheel_factor_def wheel_center_def exact_host_def ex_zoomed_def
        ex_box_def ex_wheel_def)
  moreover from wheelEvent_coalesces_or_pushes [OF r3]
  have "undoStack (snd (wheelEvent fuzzy_host (fuzzy_box\<lparr>undoStack := [(2, (1, 0), None)]\<rparr>)
                     (fuzzy_wheel (1 + 5 / 10 ^ 13)) None False)) =
     [(100 / 51, (1 + 5 / 10 ^ 13, 0), None)]"
    by (auto simp add: wheel_factor_def wheel_center_def fuzzy_host_def fuzzy_box_def
        fuzzy_wheel_def)
  ultimately show ?thesis using r1 r2 r3 by simp
qed

text \<open>
  A call in which the power overflows raises after its signal: nothing is pushed for
  the event on the x axis, and nothing is multiplied into the top entry for the event at
  the center and axis of the top entry. And with the tolerant comparison an event is
  merged into an entry whose center is not equal to its own.
\<close>

theorem wheelEvent_coalesces_or_pushes_counterexample:
  "undoStack ex_zoomed = [(2, (3, 4), None)] \<and>
   wheelEvent overflow_host ex_zoomed \<lparr>pos = (4, 6), delta = - 480000\<rparr> (Some XAxis) False =
     (Some OverflowError,
      ex_zoomed\<lparr>trace := [SigMouseWheelZoomed \<lparr>pos = (4, 6), delta = - 480000\<rparr> (Some XAxis)]\<rparr>) \<and>
   length (undoStack (snd (wheelEvent overflow_host ex_zoomed
             \<lparr>pos = (4, 6), delta = - 480000\<rparr> (Some XAxis) False))) = 1 \<and>
   wheel_center overflow_host ex_zoomed \<lparr>pos = (4, 6), delta = - 480000\<rparr> = (3, 4) \<and>
   undoStack (snd (wheelEvent overflow_host ex_zoomed
             \<lparr>pos = (4, 6), delta = - 480000\<rparr> None True)) = [(2, (3, 4), None)] \<and>
   wheel_center fuzzy_host (fuzzy_box\<lparr>undoStack := [(2, (1, 0), None)]\<rparr>)
     (fuzzy_wheel (1 + 5 / 10 ^ 13)) \<noteq> (1, 0) \<and>
   undoStack (snd (wheelEvent fuzzy_host (fuzzy_box\<lparr>undoStack := [(2, (1, 0), None)]\<rparr>)
                     (fuzzy_wheel (1 + 5 / 10 ^ 13)) None False)) =
     [(100 / 51, (1 + 5 / 10 ^ 13, 0), None)]"
  by (simp add: wheelEvent_def wheel_center_def perform_def Let_def overflow_host_def
      exact_host_def ex_zoomed_def ex_box_def XAxis_def YAxis_def fuzzy_host_def fuzzy_box_def
      fuzzy_wheel_def)

text \<open>
  C2. After every call of \<open>wheelEvent\<close> that returns, whatever the axis and whether or
  not the event came from a signal, the redo stack is empty.
\<close>

theorem wheelEvent_clears_redoStack:
  assumes "fst (wheelEvent H s ev axis fromSignal) = None"
  shows "redoStack (snd (wheelEvent H s ev axis fromSignal)) = []"
proof -
  from assms obtain f where f: "wheel_factor H s ev = Inr f"
    by (auto simp add: wheelEvent_returns_iff)
  then show ?thesis by (simp add: wheelEvent_returns [OF f])
qed

text \<open>A redo stack with one entry is emptied, also by a propagated event on the y axis.\<close>

theorem wheelEvent_clears_redoStack_witness:
  "redoStack ex_zoomed = [(1 / 2, (0, 0), None)] \<and>
   fst (wheelEvent exact_host ex_zoomed ex_wheel (Some YAxis) True) = None \<and>
   redoStack (snd (wheelEvent exact_host ex_zoomed ex_wheel (Some YAxis) True)) = [] \<and>
   fst (wheelEvent exact_host ex_zoomed ex_wheel None False) = None \<and>
   redoStack (snd (wheelEvent exact_host ex_zoomed ex_wheel None False)) = []"
proof -
  have r1: "fst (wheelEvent exact_host ex_zoomed ex_wheel (Some YAxis) True) = None"
    and r2: "fst (wheelEvent exact_host ex_zoomed ex_wheel None False) = None"
    by (simp_all add: wheelEvent_def perform_def Let_def exact_host_def ex_zoomed_def
        ex_box_def ex_wheel_def)
  from wheelEvent_clears_redoStack [OF r1] wheelEvent_clears_redoStack [OF r2] r1 r2
  show ?thesis by (simp add: ex_zoomed_def ex_box_def)
qed

text \<open>
  C3, as the code has it. A call of \<open>undo\<close> with the entry (scale, center, axis) on top
  of the undo stack, the scale not zero, returns without an exception; it pops that
  entry, emits the zoom signal with scale, center and axis, scales the view by
  \<open>[scale, scale]\<close> around the center (the mask is \<open>[True, True]\<close>, whatever the
  recorded axis), and appends (1 / scale, center, axis) to the redo stack.
\<close>

theorem undo_pops_scales_and_records_inverse:
  assumes "undoStack s = st @ [(scale, center, axis)]" and "\<not> f_is_zero H scale"
  shows "undo H s =
     (None,
      s\<lparr>undoStack := st,
        redoStack := redoStack s @ [(f_recip H scale, center, axis)],
        trace := trace s @
          [ResetTarget, Print_mask [True, True], Print_s [Some scale, Some scale],
           ZoomSignal scale center axis, ScaleBy [Some scale, Some scale] center,
           SigRangeChangedManually [True, True]]\<rparr>)"
  using undo_eq [OF assms(1), of H] assms(2) by simp

theorem undo_pops_scales_and_records_inverse_witness:
  "undoStack ex_zoomed = [(2, (3, 4), None)] \<and> \<not> f_is_zero exact_host 2 \<and>
   undo exact_host ex_zoomed =
     (None,
      ex_zoomed\<lparr>undoStack := [],
        redoStack := [(1 / 2, (0, 0), None), (1 / 2, (3, 4), None)],
        trace := [ResetTarget, Print_mask [True, True], Print_s [Some 2, Some 2],
           ZoomSignal 2 (3, 4) None, ScaleBy [Some 2, Some 2] (3, 4),
           SigRangeChangedManually [True, True]]\<rparr>)"
proof -
  have st: "undoStack ex_zoomed = [] @ [(2, (3, 4), None)]"
    by (simp add: ex_zoomed_def ex_box_def)
  have nz: "\<not> f_is_zero exact_host 2"
    by (simp add: exact_host_def)
  from undo_pops_scales_and_records_inverse [OF st nz] st nz show ?thesis
    by (simp add: exact_host_def ex_zoomed_def ex_box_def)
qed

text \<open>
  With the scale zero on top (a product of float factors can underflow to it) the
  entry is popped, the signals are emitted and the view is scaled, then the division
  raises and nothing is appended to the redo stack.
\<close>

theorem undo_pops_scales_and_records_inverse_counterexample:
  "undoStack (ex_box\<lparr>undoStack := [(0, (3, 4), None)]\<rparr>) = [(0, (3, 4), None)] \<and>
   undo exact_host (ex_box\<lparr>undoStack := [(0, (3, 4), None)]\<rparr>) =
     (Some ZeroDivisionError,
      ex_box\<lparr>trace := [ResetTarget, Print_mask [True, True], Print_s [Some 0, Some 0],
           ZoomSignal 0 (3, 4) None, ScaleBy [Some 0, Some 0] (3, 4),
           SigRangeChangedManually [True, True]]\<rparr>) \<and>
   redoStack (snd (undo exact_host (ex_box\<lparr>undoStack := [(0, (3, 4), None)]\<rparr>))) = []"
  by (simp add: undo_def perform_def Let_def exact_host_def ex_box_def)

text \<open>
  C4. With an empty undo stack \<open>undo\<close> raises nothing and returns the widget as it
  was: both stacks, the fields of the base class and the trace (no signal, no scaling)
  are unchanged.
\<close>

theorem undo_empty_is_noop:
  "undoStack s = [] \<Longrightarrow> undo H s = (None, s)"
  by (simp add: undo_def)

theorem undo_empty_is_noop_witness:
  "undoStack ex_box = [] \<and> undo exact_host ex_box = (None, ex_box)"
  using undo_empty_is_noop [of ex_box exact_host]
  by (simp add: ex_box_def)

text \<open>
  C5, as the code has it. With an empty history list \<open>scaleHistory\<close> only emits its
  signal: the pointer is not changed and nothing is displayed, for \<open>d = 0\<close> too. With a
  history list that is not empty and the pointer between \<open>-1\<close> and the last index:
  \<open>d = -1\<close> moves the pointer back by one and stops at \<open>-1\<close> (from \<open>0\<close> it goes to
  \<open>-1\<close>); \<open>d = 1\<close> moves it forward by one and stops at the last index; \<open>d = 0\<close> sets
  it to \<open>-1\<close>; any other \<open>d\<close> leaves it. The pointer stays in that range, and then a
  pointer of \<open>-1\<close> enables the auto range and any other pointer shows the rectangle
  stored at that index. Nothing else of the widget changes and nothing is raised.
\<close>

theorem scaleHistory_moves_pointer:
  "(axHistory s = [] \<longrightarrow>
      scaleHistory s d = (None, s\<lparr>trace := trace s @ [SigHistoryChanged d]\<rparr>)) \<and>
   (axHistory s \<noteq> [] \<and> - 1 \<le> axHistoryPointer s
      \<and> axHistoryPointer s \<le> int (length (axHistory s)) - 1 \<longrightarrow>
      fst (scaleHistory s d) = None \<and>
      (d = - 1 \<longrightarrow> axHistoryPointer (snd (scaleHistory s d)) = max (- 1) (axHistoryPointer s - 1)) \<and>
      (d = 1 \<longrightarrow> axHistoryPointer (snd (scaleHistory s d)) =
         min (int (length (axHistory s)) - 1) (axHistoryPointer s + 1)) \<and>
      (d = 0 \<longrightarrow> axHistoryPointer (snd (scaleHistory s d)) = - 1) \<and>
      (d \<noteq> - 1 \<and> d \<noteq> 1 \<and> d \<noteq> 0 \<longrightarrow> axHistoryPointer (snd (scaleHistory s d)) = axHistoryPointer s) \<and>
      - 1 \<le> axHistoryPointer (snd (scaleHistory s d)) \<and>
      axHistoryPointer (snd (scaleHistory s d)) \<le> int (length (axHistory s)) - 1 \<and>
      snd (scaleHistory s d) =
        s\<lparr>axHistoryPointer := axHistoryPointer (snd (scaleHistory s d)),
          trace := trace s @
            [SigHistoryChanged d,
             if axHistoryPointer (snd (scaleHistory s d)) = - 1 then EnableAutoRange
             else ShowAxRect (axHistory s ! nat (axHistoryPointer (snd (scaleHistory s d))))]\<rparr>)"
  by (auto simp add: scaleHistory_def perform_def py_index_def Let_def)

theorem scaleHistory_moves_pointer_witness:
  "axHistoryPointer (snd (scaleHistory ex_box (- 1))) = 0 \<and>
   trace (snd (scaleHistory ex_box (- 1))) = [SigHistoryChanged (- 1), ShowAxRect 10] \<and>
   axHistoryPointer (snd (scaleHistory (ex_box\<lparr>axHistoryPointer := - 1\<rparr>) (- 1))) = - 1 \<and>
   axHistoryPointer (snd (scaleHistory (ex_box\<lparr>axHistoryPointer := 2\<rparr>) 1)) = 2 \<and>
   trace (snd (scaleHistory (ex_box\<lparr>axHistoryPointer := 2\<rparr>) 1)) = [SigHistoryChanged 1, ShowAxRect 30] \<and>
   axHistoryPointer (snd (scaleHistory ex_box 1)) = 2 \<and>
   axHistoryPointer (snd (scaleHistory ex_box 0)) = - 1 \<and>
   trace (snd (scaleHistory ex_box 0)) = [SigHistoryChanged 0, EnableAutoRange] \<and>
   scaleHistory (ex_box\<lparr>axHistory := []\<rparr>) 1 =
     (None, ex_box\<lparr>axHistory := [], trace := [SigHistoryChanged 1]\<rparr>)"
  using scaleHistory_moves_pointer [of ex_box "- 1"]
    scaleHistory_moves_pointer [of "ex_box\<lparr>axHistoryPointer := - 1\<rparr>" "- 1"]
    scaleHistory_moves_pointer [of "ex_box\<lparr>axHistoryPointer := 2\<rparr>" 1]
    scaleHistory_moves_pointer [of ex_box 1]
    scaleHistory_moves_pointer [of ex_box 0]
    scaleHistory_moves_pointer [of "ex_box\<lparr>axHistory := []\<rparr>" 1]
  by (simp add: ex_box_def scaleHistory_def perform_def py_index_def Let_def)

text \<open>
  From the pointer \<open>0\<close> the direction \<open>-1\<close> leads to \<open>-1\<close> and the auto range, below
  the bound \<open>0\<close>; and with an empty history the direction \<open>0\<close> does not enable the auto
  range.
\<close>

theorem scaleHistory_moves_pointer_counterexample:
  "axHistory (ex_box\<lparr>axHistoryPointer := 0\<rparr>) = [10, 20, 30] \<and>
   axHistoryPointer (snd (scaleHistory (ex_box\<lparr>axHistoryPointer := 0\<rparr>) (- 1))) = - 1 \<and>
   axHistoryPointer (snd (scaleHistory (ex_box\<lparr>axHistoryPointer := 0\<rparr>) (- 1))) < 0 \<and>
   trace (snd (scaleHistory (ex_box\<lparr>axHistoryPointer := 0\<rparr>) (- 1))) =
     [SigHistoryChanged (- 1), EnableAutoRange] \<and>
   scaleHistory (ex_box\<lparr>axHistory := [], axHistoryPointer := - 1\<rparr>) 0 =
     (None, ex_box\<lparr>axHistory := [], axHistoryPointer := - 1, trace := [SigHistoryChanged 0]\<rparr>) \<and>
   EnableAutoRange \<notin> set (trace (snd (scaleHistory (ex_box\<lparr>axHistory := [], axHistoryPointer := - 1\<rparr>) 0)))"
  by (simp add: scaleHistory_def perform_def py_index_def Let_def ex_box_def)

text \<open>
  C6. Every call of \<open>scaleHistory\<close>, for any integer \<open>d\<close>, any history list (the empty
  one too) and any pointer, adds to the trace exactly one emission of the
  history-changed signal, and it carries \<open>d\<close> itself; so also when the pointer does not
  move, and when the lookup in the history list raises.
\<close>

theorem scaleHistory_emits_once:
  "history_signals (trace (snd (scaleHistory s d))) = history_signals (trace s) @ [d]"
proof -
  obtain post where "trace (snd (scaleHistory s d)) = trace s @ SigHistoryChanged d # post"
    and "history_signals post = []"
    using scaleHistory_trace by blast
  then show ?thesis by (simp add: history_signals_append)
qed

text \<open>
  A move forward, a move forward at the last index (the pointer stays), and a
  direction that is none of \<open>-1\<close>, \<open>0\<close>, \<open>1\<close> on an empty history.
\<close>

theorem scaleHistory_emits_once_witness:
  "history_signals (trace (snd (scaleHistory ex_box 1))) = [1] \<and>
   history_signals (trace (snd (scaleHistory (ex_box\<lparr>axHistoryPointer := 2\<rparr>) 1))) = [1] \<and>
   history_signals (trace (snd (scaleHistory (ex_box\<lparr>axHistory := []\<rparr>) 7))) = [7]"
  using scaleHistory_emits_once [of ex_box 1]
    scaleHistory_emits_once [of "ex_box\<lparr>axHistoryPointer := 2\<rparr>" 1]
    scaleHistory_emits_once [of "ex_box\<lparr>axHistory := []\<rparr>" 7]
  by (simp add: ex_box_def)

text \<open>
  C7. A call of \<open>wheelEvent\<close> emits \<open>sigMouseWheelZoomed\<close>, and a call of
  \<open>mouseDragEvent\<close> emits \<open>sigMouseDragged\<close>, once with the event and its axis when
  \<open>fromSignal\<close> is false and the axis is not the y axis, and not at all otherwise: an
  event on the y axis is not broadcast, and a propagated event is not broadcast again.
  The signal of \<open>wheelEvent\<close> comes before its factor is computed, so this holds of a
  call that raises too.
\<close>

theorem broadcast_iff_local_and_not_y:
  "wheel_signals (trace (snd (wheelEvent H s ev axis fromSignal))) =
     wheel_signals (trace s) @ (if \<not> fromSignal \<and> axis \<noteq> Some YAxis then [(ev, axis)] else []) \<and>
   drag_signals (trace (mouseDragEvent s dev axis fromSignal)) =
     drag_signals (trace s) @ (if \<not> fromSignal \<and> axis \<noteq> Some YAxis then [(dev, axis)] else [])"
  by (simp add: wheelEvent_wheel_signals mouseDragEvent_eq drag_signals_append)

theorem broadcast_iff_local_and_not_y_witness:
  "wheel_signals (trace (snd (wheelEvent exact_host ex_box ex_wheel (Some XAxis) False))) =
     [(ex_wheel, Some XAxis)] \<and>
   wheel_signals (trace (snd (wheelEvent exact_host ex_box ex_wheel (Some YAxis) False))) = [] \<and>
   wheel_signals (trace (snd (wheelEvent exact_host ex_box ex_wheel None True))) = [] \<and>
   wheel_signals (trace (snd (wheelEvent overflow_host ex_box \<lparr>pos = (4, 6), delta = - 480000\<rparr>
                                 None False))) =
     [(\<lparr>pos = (4, 6), delta = - 480000\<rparr>, None)] \<and>
   drag_signals (trace (mouseDragEvent ex_box \<lparr>isFinish = False\<rparr> (Some XAxis) False)) =
     [(\<lparr>isFinish = False\<rparr>, Some XAxis)] \<and>
   drag_signals (trace (mouseDragEvent ex_box \<lparr>isFinish = False\<rparr> (Some YAxis) False)) = [] \<and>
   drag_signals (trace (mouseDragEvent ex_box \<lparr>isFinish = False\<rparr> None True)) = [] \<and>
   drag_signals (trace (mouseDragEvent ex_box \<lparr>isFinish = False\<rparr> None False)) =
     [(\<lparr>isFinish = False\<rparr>, None)]"
  using broadcast_iff_local_and_not_y
      [where H = exact_host and s = ex_box and ev = ex_wheel and axis = "Some XAxis"
         and fromSignal = False and dev = "\<lparr>isFinish = False\<rparr>"]
    broadcast_iff_local_and_not_y
      [where H = exact_host and s = ex_box and ev = ex_wheel and axis = "Some YAxis"
         and fromSignal = False and dev = "\<lparr>isFinish = False\<rparr>"]
    broadcast_iff_local_and_not_y
      [where H = exact_host and s = ex_box and ev = ex_wheel and axis = None
         and fromSignal = True and dev = "\<lparr>isFinish = False\<rparr>"]
    broadcast_iff_local_and_not_y
      [where H = overflow_host and s = ex_box and ev = "\<lparr>pos = (4, 6), delta = - 480000\<rparr>"
         and axis = None and fromSignal = False and dev = "\<lparr>isFinish = False\<rparr>"]
  by (simp add: ex_box_def XAxis_def YAxis_def)

text \<open>
  C8, as the code has it. A call of \<open>mouseDragEvent\<close> emits \<open>sigMouseDraggedDone\<close> once
  when the event is not a propagated one (\<open>fromSignal\<close> false), reports that the drag
  is finishing, the mouse mode is the rectangle mode and the axis is \<open>None\<close>; in every
  other case, a propagated event among them, it does not emit it.
\<close>

theorem dragDone_iff_local_finish_rect_no_axis:
  "count_list (trace (mouseDragEvent s ev axis fromSignal)) SigMouseDraggedDone =
     count_list (trace s) SigMouseDraggedDone +
     (if \<not> fromSignal \<and> isFinish ev \<and> mouseMode s = RectMode \<and> axis = None then 1 else 0)"
  by (simp add: mouseDragEvent_eq)

theorem dragDone_iff_local_finish_rect_no_axis_witness:
  "count_list (trace (mouseDragEvent ex_box \<lparr>isFinish = True\<rparr> None False)) SigMouseDraggedDone = 1 \<and>
   trace (mouseDragEvent ex_box \<lparr>isFinish = True\<rparr> None False) =
     [SigMouseDragged \<lparr>isFinish = True\<rparr> None, SigMouseDraggedDone,
      Super_mouseDragEvent \<lparr>isFinish = True\<rparr> None]"
  using dragDone_iff_local_finish_rect_no_axis [of ex_box "\<lparr>isFinish = True\<rparr>" None False]
  by (simp add: mouseDragEvent_eq ex_box_def)

text \<open>
  A propagated event that finishes a drag in rectangle mode with no axis: only the
  handler of the base class runs.
\<close>

theorem dragDone_counterexample:
  "isFinish \<lparr>isFinish = True\<rparr> \<and> mouseMode ex_box = RectMode \<and>
   trace (mouseDragEvent ex_box \<lparr>isFinish = True\<rparr> None True) =
     [Super_mouseDragEvent \<lparr>isFinish = True\<rparr> None] \<and>
   SigMouseDraggedDone \<notin> set (trace (mouseDragEvent ex_box \<lparr>isFinish = True\<rparr> None True))"
  by (simp add: mouseDragEvent_def perform_def ex_box_def Let_def)

text \<open>
  C9. \<open>keyPressEvent\<close> tests the text of the event first and its key code after:
  the text \<open>-\<close> runs \<open>undo\<close>; the text \<open>+\<close> or \<open>=\<close> runs \<open>scaleHistory(1)\<close>; the
  Backspace key (whose text is none of these three) runs \<open>scaleHistory(0)\<close>; in these
  cases the event stays accepted. For every other key the event is returned not
  accepted, the widget is unchanged and nothing is raised.
\<close>

theorem keyPressEvent_dispatch:
  "(key_text ev = ''-'' \<longrightarrow>
      keyPressEvent H s ev = (fst (undo H s), snd (undo H s), ev\<lparr>accepted := True\<rparr>)) \<and>
   (key_text ev = ''+'' \<or> key_text ev = ''='' \<longrightarrow>
      keyPressEvent H s ev =
        (fst (scaleHistory s 1), snd (scaleHistory s 1), ev\<lparr>accepted := True\<rparr>)) \<and>
   (key ev = Key_Backspace \<and> key_text ev \<notin> {''-'', ''+'', ''=''} \<longrightarrow>
      keyPressEvent H s ev =
        (fst (scaleHistory s 0), snd (scaleHistory s 0), ev\<lparr>accepted := True\<rparr>)) \<and>
   (key ev \<noteq> Key_Backspace \<and> key_text ev \<notin> {''-'', ''+'', ''=''} \<longrightarrow>
      keyPressEvent H s ev = (None, s, ev\<lparr>accepted := False\<rparr>))"
  by (simp add: keyPressEvent_eq)

text \<open>The keys minus, equal, plus, Backspace and \<open>a\<close> at the concrete widget.\<close>

theorem keyPressEvent_dispatch_witness:
  "keyPressEvent exact_host ex_zoomed (ex_key ''-'' 45) =
     (None,
      ex_zoomed\<lparr>undoStack := [], redoStack := [(1 / 2, (0, 0), None), (1 / 2, (3, 4), None)],
        trace := [ResetTarget, Print_mask [True, True], Print_s [Some 2, Some 2],
          ZoomSignal 2 (3, 4) None, ScaleBy [Some 2, Some 2] (3, 4),
          SigRangeChangedManually [True, True]]\<rparr>,
      \<lparr>key_text = ''-'', key = 45, accepted = True\<rparr>) \<and>
   keyPressEvent exact_host ex_zoomed (ex_key ''='' 61) =
     (None, ex_zoomed\<lparr>axHistoryPointer := 2, trace := [SigHistoryChanged 1, ShowAxRect 30]\<rparr>,
      \<lparr>key_text = ''='', key = 61, accepted = True\<rparr>) \<and>
   keyPressEvent exact_host ex_zoomed (ex_key ''+'' 43) =
     (None, ex_zoomed\<lparr>axHistoryPointer := 2, trace := [SigHistoryChanged 1, ShowAxRect 30]\<rparr>,
      \<lparr>key_text = ''+'', key = 43, accepted = True\<rparr>) \<and>
   keyPressEvent exact_host ex_zoomed (ex_key [CHR 0x08] Key_Backspace) =
     (None, ex_zoomed\<lparr>axHistoryPointer := - 1, trace := [SigHistoryChanged 0, EnableAutoRange]\<rparr>,
      \<lparr>key_text = [CHR 0x08], key = Key_Backspace, accepted = True\<rparr>) \<and>
   keyPressEvent exact_host ex_zoomed (ex_key ''a'' 65) =
     (None, ex_zoomed, \<lparr>key_text = ''a'', key = 65, accepted = False\<rparr>)"
  using keyPressEvent_dispatch [where ev = "ex_key ''-'' 45" and s = ex_zoomed and H = exact_host]
    keyPressEvent_dispatch [where ev = "ex_key ''='' 61" and s = ex_zoomed and H = exact_host]
    keyPressEvent_dispatch [where ev = "ex_key ''+'' 43" and s = ex_zoomed and H = exact_host]
    keyPressEvent_dispatch
      [where ev = "ex_key [CHR 0x08] Key_Backspace" and s = ex_zoomed and H = exact_host]
    keyPressEvent_dispatch [where ev = "ex_key ''a'' 65" and s = ex_zoomed and H = exact_host]
  by (simp add: ex_key_def ex_zoomed_def ex_box_def exact_host_def Key_Backspace_def undo_def
      scaleHistory_def perform_def py_index_def Let_def)




end
